theory Spec2Isabelle
  imports Complex_Main "HOL-Library.Monad_Syntax" "HOL-Library.AList"
begin

section \<open>Exchange types (src/core/exchange/types.ts)\<close>

text \<open>
  The enums of the exchange layer are datatypes.  A \<open>Decimal\<close> (decimal.js) holding a
  finite number is a rational: the bot's percentage arithmetic (\<open>times\<close>, \<open>plus\<close>,
  \<open>minus\<close>, comparisons) is exact on the values it meets, and a JavaScript number
  given to a \<open>Decimal\<close> operation enters through its shortest decimal text
  (\<open>1 - 5 / 100\<close> is \<open>0.95\<close>, \<open>1 + 5 / 100\<close> is \<open>1.05\<close>, \<open>1 + 1.3 / 100\<close> is \<open>1.013\<close>).
  Rounding of quotients beyond 20 significant digits is not modelled.
\<close>

datatype OrderSide = BUY | SELL

datatype OrderType = MARKET | LIMIT | STOP | STOP_LIMIT

datatype OrderStatus = PENDING | OPEN | FILLED | PARTIALLY_FILLED | CANCELLED | REJECTED

section \<open>Order status mapping (EnclaveClient.mapOrderStatus)\<close>

text \<open>
  \<open>String.prototype.toLowerCase\<close> on the ASCII range: the capital letters
  \<open>A\<close> .. \<open>Z\<close> (codes 65 .. 90) move to \<open>a\<close> .. \<open>z\<close>, every other byte stays.
\<close>

definition toLowerCase_char :: "char \<Rightarrow> char" where
  "toLowerCase_char c =
     (if 65 \<le> (of_char c :: nat) \<and> (of_char c :: nat) \<le> 90
      then char_of ((of_char c :: nat) + 32) else c)"

definition toLowerCase :: "string \<Rightarrow> string" where
  "toLowerCase s = map toLowerCase_char s"

text \<open>
  The status arrives from parsed JSON, so it may be missing: \<open>status?.toLowerCase() || ''\<close>
  turns a missing status into the empty string.  The \<open>switch\<close> is the chain of
  comparisons below, with the source's \<open>default\<close> branch last.
\<close>

definition normalizedStatus :: "string option \<Rightarrow> string" where
  "normalizedStatus status = (case status of None \<Rightarrow> [] | Some s \<Rightarrow> toLowerCase s)"

definition mapOrderStatus :: "string option \<Rightarrow> OrderStatus" where
  "mapOrderStatus status =
     (let n = normalizedStatus status in
      if n = ''open'' \<or> n = ''new'' \<or> n = ''pending'' then OPEN
      else if n = ''filled'' \<or> n = ''fullyfilled'' \<or> n = ''fully_filled'' \<or> n = ''complete''
              \<or> n = ''completed'' \<or> n = ''executed'' then FILLED
      else if n = ''partiallyfilled'' \<or> n = ''partially_filled'' \<or> n = ''partial''
           then PARTIALLY_FILLED
      else if n = ''cancelled'' \<or> n = ''canceled'' then CANCELLED
      else if n = ''rejected'' \<or> n = ''failed'' then REJECTED
      else FILLED)"

text \<open>The status texts the \<open>switch\<close> names in a \<open>case\<close> label.\<close>

definition recognizedStatuses :: "string list" where
  "recognizedStatuses =
     [''open'', ''new'', ''pending'',
      ''filled'', ''fullyfilled'', ''fully_filled'', ''complete'', ''completed'', ''executed'',
      ''partiallyfilled'', ''partially_filled'', ''partial'',
      ''cancelled'', ''canceled'',
      ''rejected'', ''failed'']"

text \<open>
  \<open>getOpenOrders\<close> keeps an order only while its mapped status is one of these; every
  other status counts as no longer open.
\<close>

definition isOpenStatus :: "OrderStatus \<Rightarrow> bool" where
  "isOpenStatus s = (s = OPEN \<or> s = PENDING \<or> s = PARTIALLY_FILLED)"

section \<open>Decimal helpers\<close>

text \<open>
  decimal.js does not throw on a zero divisor: \<open>x.dividedBy(0)\<close> is \<open>NaN\<close> when \<open>x\<close> is
  zero and an infinity of the sign of \<open>x\<close> otherwise (signed zeros are not modelled).
  Wherever the program divides by a value that can be zero, the quotient is a value of
  this type, and the comparisons (\<open>lessThan\<close>, \<open>greaterThan\<close>, ... of decimal.js, here with the
  suffix \<open>_dec\<close>) follow the library: every comparison with \<open>NaN\<close> is false.
\<close>

datatype Quotient = Fin rat | PosInfinity | NegInfinity | NaN

definition dividedBy :: "rat \<Rightarrow> rat \<Rightarrow> Quotient" where
  "dividedBy x y =
     (if y = 0 then (if x = 0 then NaN else if 0 < x then PosInfinity else NegInfinity)
      else Fin (x / y))"

fun lessThan_dec :: "Quotient \<Rightarrow> rat \<Rightarrow> bool" where
  "lessThan_dec (Fin v) c = (v < c)"
| "lessThan_dec PosInfinity c = False"
| "lessThan_dec NegInfinity c = True"
| "lessThan_dec NaN c = False"

fun lessThanOrEqualTo_dec :: "Quotient \<Rightarrow> rat \<Rightarrow> bool" where
  "lessThanOrEqualTo_dec (Fin v) c = (v \<le> c)"
| "lessThanOrEqualTo_dec PosInfinity c = False"
| "lessThanOrEqualTo_dec NegInfinity c = True"
| "lessThanOrEqualTo_dec NaN c = False"

fun greaterThan_dec :: "Quotient \<Rightarrow> rat \<Rightarrow> bool" where
  "greaterThan_dec (Fin v) c = (c < v)"
| "greaterThan_dec PosInfinity c = True"
| "greaterThan_dec NegInfinity c = False"
| "greaterThan_dec NaN c = False"

fun greaterThanOrEqualTo_dec :: "Quotient \<Rightarrow> rat \<Rightarrow> bool" where
  "greaterThanOrEqualTo_dec (Fin v) c = (c \<le> v)"
| "greaterThanOrEqualTo_dec PosInfinity c = True"
| "greaterThanOrEqualTo_dec NegInfinity c = False"
| "greaterThanOrEqualTo_dec NaN c = False"


text \<open>
  \<open>Decimal.max(...xs)\<close> and \<open>Decimal.min(...xs)\<close>: with no argument the library throws
  (it builds a \<open>Decimal\<close> from \<open>undefined\<close>), which is \<open>None\<close> here.
\<close>

fun decimal_max :: "rat list \<Rightarrow> rat option" where
  "decimal_max [] = None"
| "decimal_max (x # xs) = Some (foldl max x xs)"

fun decimal_min :: "rat list \<Rightarrow> rat option" where
  "decimal_min [] = None"
| "decimal_min (x # xs) = Some (foldl min x xs)"

text \<open>
  \<open>xs.slice(-n)\<close>: the last \<open>n\<close> elements, the whole array when it has fewer, and
  (\<open>-0\<close> being \<open>0\<close>) the whole array for \<open>n = 0\<close>.
\<close>

definition slice_last :: "nat \<Rightarrow> 'a list \<Rightarrow> 'a list" where
  "slice_last n xs = (if n = 0 then xs else drop (length xs - n) xs)"

section \<open>Indicator library (TechnicalIndicators)\<close>

text \<open>
  Every \<open>throw new Error('Insufficient data ...')\<close> is the result \<open>None\<close>.  The period
  arguments are the positive literals of the call sites (14, 20, 50, 200, 12, 26, 9, 3).
\<close>

record PriceData =
  high :: rat
  low :: rat
  close :: rat
  volume :: rat
  timestamp :: int

definition calculateAverageVolume :: "PriceData list \<Rightarrow> nat \<Rightarrow> rat option" where
  "calculateAverageVolume prices periods =
     (if length prices < periods then None
      else
        let recentPrices = slice_last periods prices;
            totalVolume = foldl (\<lambda>sum p. sum + volume p) 0 recentPrices
        in Some (totalVolume / of_nat periods))"

definition calculateRSI :: "PriceData list \<Rightarrow> nat \<Rightarrow> rat option" where
  "calculateRSI prices periods =
     (if length prices < periods + 1 then None
      else
        let changes = map (\<lambda>i. close (prices ! i) - close (prices ! (i - 1))) [1..<length prices];
            recentChanges = slice_last periods changes;
            gains = filter (\<lambda>c. 0 < c) recentChanges;
            losses = map abs (filter (\<lambda>c. c < 0) recentChanges);
            totalGain = foldl (+) 0 gains;
            totalLoss = foldl (+) 0 losses;
            avgGain = totalGain / of_nat periods;
            avgLoss = totalLoss / of_nat periods
        in if avgLoss = 0 then Some 100
           else let rs = avgGain / avgLoss in Some (100 - 100 / (rs + 1)))"

definition calculateSMA :: "rat list \<Rightarrow> nat \<Rightarrow> rat option" where
  "calculateSMA prices periods =
     (if length prices < periods then None
      else
        let recentPrices = slice_last periods prices;
            sum = foldl (+) 0 recentPrices
        in Some (sum / of_nat periods))"

definition calculateEMA :: "rat list \<Rightarrow> nat \<Rightarrow> rat option" where
  "calculateEMA prices periods =
     (if length prices < periods then None
      else do {
        let multiplier = 2 / (of_nat periods + 1);
        ema \<leftarrow> calculateSMA (take periods prices) periods;
        Some (foldl (\<lambda>ema p. p * multiplier + ema * (1 - multiplier)) ema (drop periods prices))
      })"

record BollingerBands =
  upper :: rat
  middle :: rat
  lower :: rat

text \<open>
  \<open>Decimal.sqrt\<close> is library code outside the repository: the square root is the
  parameter \<open>dsqrt\<close> of every function that reaches the Bollinger bands.
\<close>

definition calculateBollingerBands ::
  "(rat \<Rightarrow> rat) \<Rightarrow> rat list \<Rightarrow> nat \<Rightarrow> rat \<Rightarrow> BollingerBands option" where
  "calculateBollingerBands dsqrt prices periods stdDev =
     (if length prices < periods then None
      else do {
        sma \<leftarrow> calculateSMA prices periods;
        let recentPrices = slice_last periods prices;
        let squaredDiffs = map (\<lambda>p. (p - sma)\<^sup>2) recentPrices;
        let variance = foldl (+) 0 squaredDiffs / of_nat periods;
        let standardDeviation = dsqrt variance;
        Some \<lparr>upper = sma + standardDeviation * stdDev,
              middle = sma,
              lower = sma - standardDeviation * stdDev\<rparr>
      })"

record MACD =
  macd :: rat
  signal :: rat
  histogram :: rat

definition calculateMACD :: "rat list \<Rightarrow> nat \<Rightarrow> nat \<Rightarrow> nat \<Rightarrow> MACD option" where
  "calculateMACD prices fastPeriod slowPeriod signalPeriod =
     (if length prices < slowPeriod + signalPeriod then None
      else do {
        fastEMA \<leftarrow> calculateEMA prices fastPeriod;
        slowEMA \<leftarrow> calculateEMA prices slowPeriod;
        let macdLine = fastEMA - slowEMA;
        macdValues \<leftarrow> those (map (\<lambda>i. do {
            let subPrices = take i prices;
            fast \<leftarrow> calculateEMA subPrices fastPeriod;
            slow \<leftarrow> calculateEMA subPrices slowPeriod;
            Some (fast - slow)
          }) [slowPeriod..<Suc (length prices)]);
        signalLine \<leftarrow> (if signalPeriod \<le> length macdValues
                       then calculateEMA macdValues signalPeriod
                       else Some macdLine);
        Some \<lparr>macd = macdLine, signal = signalLine, histogram = macdLine - signalLine\<rparr>
      })"

record Stochastic =
  stoch_k :: rat
  stoch_d :: rat

text \<open>
  \<open>prices.slice(i - kPeriod + 1, i + 1)\<close> is \<open>take kPeriod (drop (i + 1 - kPeriod) prices)\<close>
  for the indices \<open>i \<ge> kPeriod - 1\<close> of the loop.  The list of \<open>%K\<close> values is not empty
  under the length guard when \<open>kPeriod \<ge> 1\<close>; \<open>None\<close> stands for the \<open>undefined\<close> that
  JavaScript would read from an empty one.
\<close>

definition calculateStochastic :: "PriceData list \<Rightarrow> nat \<Rightarrow> nat \<Rightarrow> Stochastic option" where
  "calculateStochastic prices kPeriod dPeriod =
     (if length prices < kPeriod + dPeriod then None
      else do {
        kValues \<leftarrow> those (map (\<lambda>i. do {
            let periodPrices = take kPeriod (drop (i + 1 - kPeriod) prices);
            highest \<leftarrow> decimal_max (map high periodPrices);
            lowest \<leftarrow> decimal_min (map low periodPrices);
            let currentClose = close (last periodPrices);
            let range = highest - lowest;
            Some (if range = 0 then 50 else (currentClose - lowest) / range * 100)
          }) [kPeriod - 1..<length prices]);
        currentK \<leftarrow> (if kValues = [] then None else Some (last kValues));
        let recentKs = slice_last dPeriod kValues;
        Some \<lparr>stoch_k = currentK, stoch_d = foldl (+) 0 recentKs / of_nat dPeriod\<rparr>
      })"

datatype EMATrend = BULLISH | BEARISH | SIDEWAYS

definition detectEMAStack :: "rat list \<Rightarrow> EMATrend option" where
  "detectEMAStack prices =
     (if length prices < 200 then Some SIDEWAYS
      else do {
        ema20 \<leftarrow> calculateEMA prices 20;
        ema50 \<leftarrow> calculateEMA prices 50;
        ema200 \<leftarrow> calculateEMA prices 200;
        Some (if ema50 < ema20 \<and> ema200 < ema50 then BULLISH
              else if ema20 < ema50 \<and> ema50 < ema200 then BEARISH
              else SIDEWAYS)
      })"

datatype PriceStructure = HIGHER_HIGHS | LOWER_LOWS | CHOPPY

definition detectPriceStructure :: "PriceData list \<Rightarrow> nat \<Rightarrow> PriceStructure option" where
  "detectPriceStructure prices lookback =
     (if length prices < lookback * 2 then Some CHOPPY
      else do {
        let recentPrices = slice_last (lookback * 2) prices;
        let firstHalf = take lookback recentPrices;
        let secondHalf = drop lookback recentPrices;
        firstHigh \<leftarrow> decimal_max (map high firstHalf);
        firstLow \<leftarrow> decimal_min (map low firstHalf);
        secondHigh \<leftarrow> decimal_max (map high secondHalf);
        secondLow \<leftarrow> decimal_min (map low secondHalf);
        Some (if firstHigh < secondHigh \<and> firstLow < secondLow then HIGHER_HIGHS
              else if secondHigh < firstHigh \<and> secondLow < firstLow then LOWER_LOWS
              else CHOPPY)
      })"

section \<open>Momentum scorer (TechnicalIndicators.calculateMomentumScore)\<close>

datatype Direction = LONG | SHORT

text \<open>
  The five \<open>if\<close> chains of the scorer, one function each, in the order of the source.
  A sub-score is a JavaScript number added to a \<open>Decimal\<close>, hence the exact decimal.
\<close>

definition rsiScore :: "Direction \<Rightarrow> rat \<Rightarrow> rat" where
  "rsiScore direction rsi =
     (case direction of
        LONG \<Rightarrow>
          if 30 \<le> rsi \<and> rsi \<le> 50 then 0.20
          else if 50 < rsi \<and> rsi \<le> 60 then 0.15
          else if 60 < rsi \<and> rsi \<le> 70 then 0.08
          else if rsi < 30 then 0.12
          else 0
      | SHORT \<Rightarrow>
          if 50 \<le> rsi \<and> rsi \<le> 70 then 0.20
          else if 40 \<le> rsi \<and> rsi < 50 then 0.15
          else if 30 \<le> rsi \<and> rsi < 40 then 0.08
          else if 70 < rsi then 0.12
          else 0)"

definition macdScore :: "Direction \<Rightarrow> MACD \<Rightarrow> rat" where
  "macdScore direction m =
     (case direction of
        LONG \<Rightarrow>
          if signal m < macd m \<and> 0 < histogram m then 0.20
          else if signal m < macd m then 0.12
          else if 0 < histogram m then 0.08
          else 0
      | SHORT \<Rightarrow>
          if macd m < signal m \<and> histogram m < 0 then 0.20
          else if macd m < signal m then 0.12
          else if histogram m < 0 then 0.08
          else 0)"

definition emaScore :: "Direction \<Rightarrow> rat \<Rightarrow> rat \<Rightarrow> rat \<Rightarrow> rat \<Rightarrow> rat" where
  "emaScore direction currentPrice ema20 ema50 ema200 =
     (case direction of
        LONG \<Rightarrow>
          let priceAboveEma20 = ema20 < currentPrice;
              ema20AboveEma50 = ema50 < ema20;
              ema50AboveEma200 = ema200 < ema50
          in if priceAboveEma20 \<and> ema20AboveEma50 \<and> ema50AboveEma200 then 0.25
             else if priceAboveEma20 \<and> ema20AboveEma50 then 0.18
             else if priceAboveEma20 then 0.10
             else 0
      | SHORT \<Rightarrow>
          let priceBelowEma20 = currentPrice < ema20;
              ema20BelowEma50 = ema20 < ema50;
              ema50BelowEma200 = ema50 < ema200
          in if priceBelowEma20 \<and> ema20BelowEma50 \<and> ema50BelowEma200 then 0.25
             else if priceBelowEma20 \<and> ema20BelowEma50 then 0.18
             else if priceBelowEma20 then 0.10
             else 0)"

definition bbScore :: "Direction \<Rightarrow> Quotient \<Rightarrow> rat" where
  "bbScore direction pricePosition =
     (case direction of
        LONG \<Rightarrow>
          if lessThanOrEqualTo_dec pricePosition 0.3 then 0.15
          else if lessThanOrEqualTo_dec pricePosition 0.5 then 0.10
          else if lessThanOrEqualTo_dec pricePosition 0.7 then 0.05
          else 0
      | SHORT \<Rightarrow>
          if greaterThanOrEqualTo_dec pricePosition 0.7 then 0.15
          else if greaterThanOrEqualTo_dec pricePosition 0.5 then 0.10
          else if greaterThanOrEqualTo_dec pricePosition 0.3 then 0.05
          else 0)"

definition stochScore :: "Direction \<Rightarrow> Stochastic \<Rightarrow> rat" where
  "stochScore direction stochastic =
     (case direction of
        LONG \<Rightarrow>
          if stoch_d stochastic < stoch_k stochastic \<and> stoch_k stochastic < 80 then
            (if stoch_k stochastic < 30 then 0.20
             else if stoch_k stochastic < 50 then 0.15
             else 0.08)
          else if stoch_k stochastic < 30 then 0.10
          else 0
      | SHORT \<Rightarrow>
          if stoch_k stochastic < stoch_d stochastic \<and> 20 < stoch_k stochastic then
            (if 70 < stoch_k stochastic then 0.20
             else if 50 < stoch_k stochastic then 0.15
             else 0.08)
          else if 70 < stoch_k stochastic then 0.10
          else 0)"

text \<open>
  The result \<open>{score, components}\<close>: \<open>components\<close> is the object's key/value pairs in
  insertion order, empty for a short window.
\<close>

record MomentumScore =
  score :: rat
  components :: "(string \<times> rat) list"

definition calculateMomentumScore ::
  "(rat \<Rightarrow> rat) \<Rightarrow> PriceData list \<Rightarrow> Direction \<Rightarrow> MomentumScore option" where
  "calculateMomentumScore dsqrt prices direction =
     (if length prices < 200 then Some \<lparr>score = 0, components = []\<rparr>
      else do {
        let closePrices = map close prices;
        let currentPrice = last closePrices;
        rsi \<leftarrow> calculateRSI prices 14;
        let rsiS = rsiScore direction rsi;
        m \<leftarrow> calculateMACD closePrices 12 26 9;
        let macdS = macdScore direction m;
        ema20 \<leftarrow> calculateEMA closePrices 20;
        ema50 \<leftarrow> calculateEMA closePrices 50;
        ema200 \<leftarrow> calculateEMA closePrices 200;
        let emaS = emaScore direction currentPrice ema20 ema50 ema200;
        bollinger \<leftarrow> calculateBollingerBands dsqrt closePrices 20 2;
        let bbRange = upper bollinger - lower bollinger;
        let pricePosition = dividedBy (currentPrice - lower bollinger) bbRange;
        let bbS = bbScore direction pricePosition;
        stochastic \<leftarrow> calculateStochastic prices 14 3;
        let stochS = stochScore direction stochastic;
        Some \<lparr>score = 0 + rsiS + macdS + emaS + bbS + stochS,
              components = [(''rsi'', rsiS), (''macd'', macdS), (''ema'', emaS),
                            (''bollinger'', bbS), (''stochastic'', stochS)]\<rparr>
      })"

section \<open>Strategy state (BreakoutStrategy)\<close>

text \<open>
  The text of \<open>Signal.reason\<close> is kept as the values it is built from.
\<close>

datatype SignalReason =
  MomentumReason Direction rat EMATrend Quotient PriceStructure
| ExistingPositionOnRestart

record Signal =
  symbol :: string
  side :: OrderSide
  entryPrice :: rat
  stopLoss :: rat
  takeProfit :: "rat option"
  confidence :: rat
  reason :: SignalReason

record TrailingStop =
  trail_high :: rat
  trail_stop :: rat

text \<open>
  One entry of \<open>data/trailing_stops.json\<close>.  \<open>high\<close> and \<open>stop\<close> are texts in the file,
  read back with \<open>new Decimal(text)\<close>, which throws on a text that is no number:
  \<open>Some r\<close> is the text of the number \<open>r\<close>, \<open>None\<close> a text that is none.
\<close>

record PersistedTrailingStop =
  p_high :: "rat option"
  p_stop :: "rat option"
  p_partialProfitTaken :: bool
  p_updatedAt :: int

text \<open>
  The file: missing, unreadable (\<open>readFileSync\<close> or \<open>JSON.parse\<close> throws), or an object
  whose entries \<open>Object.entries\<close> lists in order.
\<close>

datatype TrailingStopsFile =
  Missing
| Unreadable
| Content "(string \<times> PersistedTrailingStop) list"

record Position =
  pos_symbol :: string
  pos_side :: OrderSide
  pos_quantity :: rat
  pos_entryPrice :: rat
  pos_markPrice :: rat

record Order =
  ord_id :: string
  ord_symbol :: string
  ord_side :: OrderSide
  ord_type :: OrderType
  ord_status :: OrderStatus

record BreakoutConfig =
  lookbackPeriod :: nat
  positionSize :: rat
  takeProfitPercent :: "rat option"

text \<open>
  The mutable fields of the class.  A JavaScript \<open>Map\<close> that is only looked up, set and
  deleted is a HOL map; \<open>trailingStops\<close>, which \<open>saveTrailingStops\<close> walks with
  \<open>forEach\<close>, is an association list in insertion order (\<open>AList.update\<close> keeps the place
  of a key that is present and appends a new one, as \<open>Map.set\<close> does).
  \<open>trailingStopsFile\<close> is the file on disk as last found or written.
\<close>

record Strategy =
  priceHistory :: "string \<rightharpoonup> PriceData list"
  activeSignals :: "string \<rightharpoonup> Signal"
  trailingStops :: "(string \<times> TrailingStop) list"
  lossCooldowns :: "string \<rightharpoonup> int"
  failedSignalCooldowns :: "string \<rightharpoonup> int"
  lastTrailingStopCheck :: "string \<rightharpoonup> int"
  positionOpenedAt :: "string \<rightharpoonup> int"
  partialProfitTaken :: "string \<rightharpoonup> bool"
  trailingStopsFile :: TrailingStopsFile

text \<open>
  Everything outside the process is a world \<open>'w\<close> that the calls below read and change:
  the clock (\<open>Date.now()\<close>), the exchange behind \<open>EnclaveClient\<close> and the file system.
  A call that throws returns \<open>None\<close>.  \<open>cancelOrder\<close> catches its own errors and
  returns a boolean; \<open>writeFileSync\<close> stands for the \<open>try\<close> block of
  \<open>saveTrailingStops\<close> and tells whether the write went through.  The Telegram
  service catches its own errors and touches no field of the strategy; it is left out.
\<close>

record 'w Env =
  dateNow :: "'w \<Rightarrow> int"
  getPositions :: "'w \<Rightarrow> Position list option \<times> 'w"
  getOpenOrders :: "string \<Rightarrow> 'w \<Rightarrow> Order list option \<times> 'w"
  addOrder :: "string \<Rightarrow> OrderSide \<Rightarrow> Quotient \<Rightarrow> OrderType \<Rightarrow> rat option \<Rightarrow> 'w
                \<Rightarrow> Order option \<times> 'w"
  cancelOrder :: "string \<Rightarrow> 'w \<Rightarrow> bool \<times> 'w"
  writeFileSync :: "'w \<Rightarrow> bool \<times> 'w"

definition TAKE_PROFIT_THRESHOLD :: rat where "TAKE_PROFIT_THRESHOLD = 1.3"
definition STOP_LOSS_PERCENT :: rat where "STOP_LOSS_PERCENT = 5"
definition MOMENTUM_THRESHOLD :: rat where "MOMENTUM_THRESHOLD = 0.60"
definition VOLUME_MULTIPLIER :: rat where "VOLUME_MULTIPLIER = 1.5"
definition LOSS_COOLDOWN_MS :: int where "LOSS_COOLDOWN_MS = 20 * 60 * 1000"
definition FAILED_SIGNAL_COOLDOWN_MS :: int where "FAILED_SIGNAL_COOLDOWN_MS = 5 * 60 * 1000"

section \<open>Persistence of trailing stops\<close>

definition saveTrailingStops :: "'w Env \<Rightarrow> Strategy \<Rightarrow> 'w \<Rightarrow> Strategy \<times> 'w" where
  "saveTrailingStops env st w =
     (let state = map (\<lambda>(symb, v).
            (symb, \<lparr>p_high = Some (trail_high v), p_stop = Some (trail_stop v),
                   p_partialProfitTaken =
                     (case partialProfitTaken st symb of Some b \<Rightarrow> b | None \<Rightarrow> False),
                   p_updatedAt = dateNow env w\<rparr>)) (trailingStops st);
          (written, w') = writeFileSync env w
      in if written then (st\<lparr>trailingStopsFile := Content state\<rparr>, w') else (st, w'))"

text \<open>
  The loop of \<open>loadTrailingStops\<close>: an entry whose \<open>high\<close> or \<open>stop\<close> is no number makes
  \<open>new Decimal\<close> throw, the \<open>catch\<close> ends the loading, and the entries set before it stay.
\<close>

fun loadEntries :: "(string \<times> PersistedTrailingStop) list \<Rightarrow> Strategy \<Rightarrow> Strategy" where
  "loadEntries [] st = st"
| "loadEntries ((symb, v) # rest) st =
     (case (p_high v, p_stop v) of
        (Some h, Some s) \<Rightarrow>
          loadEntries rest
            (st\<lparr>trailingStops :=
                   AList.update symb \<lparr>trail_high = h, trail_stop = s\<rparr> (trailingStops st),
                 partialProfitTaken :=
                   (if p_partialProfitTaken v then (partialProfitTaken st)(symb \<mapsto> True)
                    else partialProfitTaken st)\<rparr>)
      | _ \<Rightarrow> st)"

definition loadTrailingStops :: "Strategy \<Rightarrow> Strategy" where
  "loadTrailingStops st =
     (case trailingStopsFile st of
        Missing \<Rightarrow> st
      | Unreadable \<Rightarrow> st
      | Content entries \<Rightarrow> loadEntries entries st)"

text \<open>The constructor: empty maps, then \<open>loadTrailingStops\<close> from the file it finds.\<close>

definition newBreakoutStrategy :: "TrailingStopsFile \<Rightarrow> Strategy" where
  "newBreakoutStrategy file =
     loadTrailingStops
       \<lparr>priceHistory = Map.empty, activeSignals = Map.empty, trailingStops = [],
        lossCooldowns = Map.empty, failedSignalCooldowns = Map.empty,
        lastTrailingStopCheck = Map.empty, positionOpenedAt = Map.empty,
        partialProfitTaken = Map.empty, trailingStopsFile = file\<rparr>"

definition removePersistedTrailingStop ::
  "'w Env \<Rightarrow> string \<Rightarrow> Strategy \<Rightarrow> 'w \<Rightarrow> Strategy \<times> 'w" where
  "removePersistedTrailingStop env symb st w =
     saveTrailingStops env (st\<lparr>trailingStops := AList.delete symb (trailingStops st)\<rparr>) w"

definition getTrailingStopPercent :: "string \<Rightarrow> rat" where
  "getTrailingStopPercent symb = STOP_LOSS_PERCENT"

section \<open>Rounding to the market's increments\<close>

text \<open>
  Both functions compute in JavaScript numbers; the doubles are taken as exact here.
  \<open>Math.round(x)\<close> is \<open>\<lfloor>x + 1/2\<rfloor>\<close>.
\<close>

definition priceIncrement :: "string \<Rightarrow> rat" where
  "priceIncrement symb =
     (if symb = ''BTC-USD.P'' then 1
      else if symb = ''ETH-USD.P'' then 0.1
      else if symb = ''SOL-USD.P'' then 0.01
      else if symb = ''AVAX-USD.P'' then 0.001
      else if symb = ''XRP-USD.P'' then 0.0001
      else if symb = ''BNB-USD.P'' then 0.01
      else if symb = ''DOGE-USD.P'' then 0.0001
      else if symb = ''LINK-USD.P'' then 0.001
      else if symb = ''SUI-USD.P'' then 0.0001
      else if symb = ''ARENA-USD.P'' then 0.000001
      else if symb = ''HYPE-USD.P'' then 0.001
      else if symb = ''NXP-USD.P'' then 0.001
      else 0.001)"

definition roundToIncrement :: "rat \<Rightarrow> string \<Rightarrow> rat" where
  "roundToIncrement price symb =
     (let increment = priceIncrement symb
      in of_int \<lfloor>price / increment + 1 / 2\<rfloor> * increment)"

definition sizeIncrement :: "string \<Rightarrow> rat" where
  "sizeIncrement symb =
     (if symb = ''BTC-USD.P'' then 0.001
      else if symb = ''ETH-USD.P'' then 0.01
      else if symb = ''SOL-USD.P'' then 0.1
      else if symb = ''AVAX-USD.P'' then 1
      else if symb = ''XRP-USD.P'' then 1
      else if symb = ''BNB-USD.P'' then 0.01
      else if symb = ''DOGE-USD.P'' then 1
      else if symb = ''LINK-USD.P'' then 0.1
      else if symb = ''SUI-USD.P'' then 1
      else if symb = ''ARENA-USD.P'' then 1
      else if symb = ''HYPE-USD.P'' then 0.1
      else if symb = ''NXP-USD.P'' then 1
      else if symb = ''TON-USD.P'' then 0.1
      else if symb = ''ADA-USD.P'' then 1
      else 1)"

text \<open>
  \<open>null\<close> (here \<open>None\<close>) when the quantity rounds down to nothing.  The quantity is a
  quotient by the entry price: an infinite one stays infinite (\<open>Infinity <= 0\<close> is
  false), \<open>NaN\<close> stays \<open>NaN\<close>.
\<close>

definition roundToSizeIncrement :: "Quotient \<Rightarrow> string \<Rightarrow> Quotient option" where
  "roundToSizeIncrement quantity symb =
     (let increment = sizeIncrement symb
      in case quantity of
           Fin q \<Rightarrow>
             (let rounded = of_int \<lfloor>q / increment\<rfloor> * increment
              in if rounded \<le> 0 then None else Some (Fin rounded))
         | PosInfinity \<Rightarrow> Some PosInfinity
         | NegInfinity \<Rightarrow> None
         | NaN \<Rightarrow> Some NaN)"

section \<open>Signal generation (BreakoutStrategy.generateSignal)\<close>

definition initializeWithHistoricalData :: "string \<Rightarrow> PriceData list \<Rightarrow> Strategy \<Rightarrow> Strategy" where
  "initializeWithHistoricalData symb historicalData st =
     st\<lparr>priceHistory := (priceHistory st)(symb \<mapsto> historicalData)\<rparr>"

text \<open>
  \<open>if (cooldownTimestamp) { const timeElapsed = Date.now() - cooldownTimestamp;
  if (timeElapsed < COOLDOWN_MS) ...\<close>: the entry blocks when it is there, is truthy
  (not 0) and younger than the cooldown.
\<close>

definition cooldownBlocks :: "int option \<Rightarrow> int \<Rightarrow> int \<Rightarrow> bool" where
  "cooldownBlocks cooldownTimestamp now cooldownMs =
     (case cooldownTimestamp of
        None \<Rightarrow> False
      | Some t \<Rightarrow> t \<noteq> 0 \<and> now - t < cooldownMs)"

text \<open>The other branch of the inner \<open>if\<close>: a truthy entry that no longer blocks is deleted.\<close>

definition cooldownExpired :: "int option \<Rightarrow> int \<Rightarrow> int \<Rightarrow> bool" where
  "cooldownExpired cooldownTimestamp now cooldownMs =
     (case cooldownTimestamp of
        None \<Rightarrow> False
      | Some t \<Rightarrow> t \<noteq> 0 \<and> \<not> now - t < cooldownMs)"

text \<open>
  The \<open>try\<close> block of \<open>generateSignal\<close>, the four gates and the signal: a rejection
  returns \<open>null\<close>, and so does the \<open>catch\<close> for anything an indicator throws.
  \<open>history.slice(0, -1)\<close> is \<open>butlast history\<close>.  \<open>generateSignal\<close> enters the block with at
  least 200 candles; on fewer than two, reading \<open>lastCompleteCandle.volume\<close> would throw.
\<close>

definition evaluateGates :: "(rat \<Rightarrow> rat) \<Rightarrow> string \<Rightarrow> PriceData list \<Rightarrow> Signal option" where
  "evaluateGates dsqrt symb history =
     (if length history < 2 then None
      else do {
       let closePrices = map close history;
       let currentPrice = last closePrices;
       let lastCompleteCandle = history ! (length history - 2);
       let lastCompleteVolume = volume lastCompleteCandle;
       emaStackTrend \<leftarrow> detectEMAStack closePrices;
       if emaStackTrend = SIDEWAYS then None
       else do {
         let direction = (if emaStackTrend = BULLISH then LONG else SHORT);
         avgVolume \<leftarrow> calculateAverageVolume (butlast history) 20;
         let volumeRatio = dividedBy lastCompleteVolume avgVolume;
         if lessThan_dec volumeRatio VOLUME_MULTIPLIER then None
         else do {
           ms \<leftarrow> calculateMomentumScore dsqrt history direction;
           if score ms < MOMENTUM_THRESHOLD then None
           else do {
             priceStructure \<leftarrow> detectPriceStructure history 10;
             if direction = LONG \<and> priceStructure = LOWER_LOWS then None
             else if direction = SHORT \<and> priceStructure = HIGHER_HIGHS then None
             else if priceStructure = CHOPPY then None
             else
               Some \<lparr>symbol = symb,
                     side = (if direction = LONG then BUY else SELL),
                     entryPrice = currentPrice,
                     stopLoss = (if direction = LONG
                                 then currentPrice * (1 - STOP_LOSS_PERCENT / 100)
                                 else currentPrice * (1 + STOP_LOSS_PERCENT / 100)),
                     takeProfit = Some (if direction = LONG
                                        then currentPrice * (1 + TAKE_PROFIT_THRESHOLD / 100)
                                        else currentPrice * (1 - TAKE_PROFIT_THRESHOLD / 100)),
                     confidence = score ms,
                     reason = MomentumReason direction (score ms) emaStackTrend volumeRatio
                                priceStructure\<rparr>
           }
         }
       }
     })"

text \<open>
  \<open>generateSignal\<close> reads the clock and changes nothing outside the strategy: it
  returns the signal (or \<open>null\<close>) and the strategy, in which an expired cooldown entry
  of the symbol may have been deleted.
\<close>

definition generateSignal ::
  "'w Env \<Rightarrow> (rat \<Rightarrow> rat) \<Rightarrow> string \<Rightarrow> Strategy \<Rightarrow> 'w \<Rightarrow> Signal option \<times> Strategy" where
  "generateSignal env dsqrt symb st w =
     (case priceHistory st symb of
        None \<Rightarrow> (None, st)
      | Some history \<Rightarrow>
          if length history < 200 then (None, st)
          else if activeSignals st symb \<noteq> None then (None, st)
          else if cooldownBlocks (lossCooldowns st symb) (dateNow env w) LOSS_COOLDOWN_MS
               then (None, st)
          else
            let st1 = (if cooldownExpired (lossCooldowns st symb) (dateNow env w) LOSS_COOLDOWN_MS
                       then st\<lparr>lossCooldowns := (lossCooldowns st)(symb := None)\<rparr> else st)
            in if cooldownBlocks (failedSignalCooldowns st1 symb) (dateNow env w)
                    FAILED_SIGNAL_COOLDOWN_MS
               then (None, st1)
               else
                 let st2 = (if cooldownExpired (failedSignalCooldowns st1 symb) (dateNow env w)
                                 FAILED_SIGNAL_COOLDOWN_MS
                            then st1\<lparr>failedSignalCooldowns :=
                                       (failedSignalCooldowns st1)(symb := None)\<rparr>
                            else st1)
                 in (evaluateGates dsqrt symb history, st2))"

section \<open>Position lifecycle (BreakoutStrategy)\<close>

text \<open>\<open>for (const order of orders) await this.client.cancelOrder(order.id)\<close>.\<close>

fun cancelOrders :: "'w Env \<Rightarrow> Order list \<Rightarrow> 'w \<Rightarrow> 'w" where
  "cancelOrders env [] w = w"
| "cancelOrders env (order # rest) w = cancelOrders env rest (snd (cancelOrder env (ord_id order) w))"

text \<open>
  \<open>registerExistingPosition\<close>.  The signal object is put into \<open>activeSignals\<close> and its
  \<open>stopLoss\<close> is overwritten afterwards when a trailing stop is already there; the map
  holds the same object, so the stored signal carries the final \<open>stopLoss\<close>.
  \<open>config.takeProfitPercent\<close> counts when it is set and truthy (not 0); the factor
  \<open>1 + takeProfitPercent / 100\<close>, a JavaScript number, is taken as exact.
\<close>

definition registerExistingPosition ::
  "'w Env \<Rightarrow> BreakoutConfig \<Rightarrow> string \<Rightarrow> OrderSide \<Rightarrow> rat \<Rightarrow> rat \<Rightarrow> Strategy \<Rightarrow> 'w
     \<Rightarrow> Strategy \<times> 'w" where
  "registerExistingPosition env cfg symb sd entry quantity st w =
     (let trailingStopPct = getTrailingStopPercent symb;
          initialStop = (if sd = BUY then entry * (1 - trailingStopPct / 100)
                         else entry * (1 + trailingStopPct / 100));
          tp = (case takeProfitPercent cfg of
                  None \<Rightarrow> None
                | Some pct \<Rightarrow>
                    if pct = 0 then None
                    else Some (if sd = BUY then entry * (1 + pct / 100)
                               else entry * (1 - pct / 100)));
          existingTrailing = map_of (trailingStops st) symb;
          sig = \<lparr>symbol = symb, side = sd, entryPrice = entry,
                 stopLoss = (case existingTrailing of
                               Some t \<Rightarrow> trail_stop t
                             | None \<Rightarrow> initialStop),
                 takeProfit = tp, confidence = 1, reason = ExistingPositionOnRestart\<rparr>;
          st1 = st\<lparr>activeSignals := (activeSignals st)(symb \<mapsto> sig),
                   positionOpenedAt := (positionOpenedAt st)(symb \<mapsto> dateNow env w)\<rparr>;
          (st2, w1) = (case existingTrailing of
                         Some t \<Rightarrow> (st1, w)
                       | None \<Rightarrow>
                           saveTrailingStops env
                             (st1\<lparr>trailingStops :=
                                    AList.update symb \<lparr>trail_high = entry, trail_stop = initialStop\<rparr>
                                      (trailingStops st1)\<rparr>) w);
          w2 = (case getOpenOrders env symb w1 of
                  (None, w') \<Rightarrow> w'
                | (Some existingOrders, w') \<Rightarrow> cancelOrders env existingOrders w');
          w3 = (case tp of
                  None \<Rightarrow> w2
                | Some tpv \<Rightarrow>
                    snd (addOrder env symb (if sd = BUY then SELL else BUY) (Fin quantity) LIMIT
                           (Some (roundToIncrement tpv symb)) w2))
      in (st2, w3))"

text \<open>
  \<open>executeSignal\<close>.  The check \<open>!signal.entryPrice || !signal.stopLoss\<close> never fires on
  a \<open>Signal\<close> (a \<open>Decimal\<close> object is truthy).  A throw of \<open>getPositions\<close> reaches the outer
  \<open>catch\<close>, which only logs.
\<close>

definition executeSignal ::
  "'w Env \<Rightarrow> BreakoutConfig \<Rightarrow> Signal \<Rightarrow> rat option \<Rightarrow> Strategy \<Rightarrow> 'w \<Rightarrow> Strategy \<times> 'w" where
  "executeSignal env cfg sig customQuantity st w =
     (if activeSignals st (symbol sig) \<noteq> None then (st, w)
      else if cooldownBlocks (lossCooldowns st (symbol sig)) (dateNow env w) LOSS_COOLDOWN_MS
           then (st, w)
      else
        case getPositions env w of
          (None, w1) \<Rightarrow> (st, w1)
        | (Some existingPositions, w1) \<Rightarrow>
            (case find (\<lambda>p. pos_symbol p = symbol sig) existingPositions of
               Some existingPosition \<Rightarrow>
                 registerExistingPosition env cfg (symbol sig) (pos_side existingPosition)
                   (pos_entryPrice existingPosition) (pos_quantity existingPosition) st w1
             | None \<Rightarrow>
                 (case (case customQuantity of
                          Some q \<Rightarrow> Some (Fin q)
                        | None \<Rightarrow>
                            roundToSizeIncrement (dividedBy (positionSize cfg) (entryPrice sig))
                              (symbol sig)) of
                    None \<Rightarrow> (st, w1)
                  | Some quantity \<Rightarrow>
                      (let st1 = st\<lparr>activeSignals := (activeSignals st)(symbol sig \<mapsto> sig),
                                     positionOpenedAt :=
                                       (positionOpenedAt st)(symbol sig \<mapsto> dateNow env w1)\<rparr>
                       in case addOrder env (symbol sig) (side sig) quantity MARKET None w1 of
                            (None, w2) \<Rightarrow>
                              (st1\<lparr>activeSignals := (activeSignals st1)(symbol sig := None),
                                   positionOpenedAt := (positionOpenedAt st1)(symbol sig := None),
                                   failedSignalCooldowns :=
                                     (failedSignalCooldowns st1)(symbol sig \<mapsto> dateNow env w2)\<rparr>,
                               w2)
                          | (Some order, w2) \<Rightarrow>
                              (let w3 = (case takeProfit sig of
                                           None \<Rightarrow> w2
                                         | Some tp \<Rightarrow>
                                             snd (addOrder env (symbol sig)
                                                    (if side sig = BUY then SELL else BUY) quantity
                                                    LIMIT (Some (roundToIncrement tp (symbol sig)))
                                                    w2))
                               in saveTrailingStops env
                                    (st1\<lparr>trailingStops :=
                                           AList.update (symbol sig)
                                             \<lparr>trail_high = entryPrice sig, trail_stop = stopLoss sig\<rparr>
                                             (trailingStops st1)\<rparr>) w3)))))"


text \<open>
  \<open>closePosition\<close>.  Cancelling the open orders has a \<open>try\<close> of its own; a throw of
  \<open>getPositions\<close> or of the closing order reaches the outer \<open>catch\<close>, and the strategy
  stays as it was.
\<close>

definition closePosition ::
  "'w Env \<Rightarrow> string \<Rightarrow> string \<Rightarrow> Strategy \<Rightarrow> 'w \<Rightarrow> Strategy \<times> 'w" where
  "closePosition env symb rsn st w =
     (case activeSignals st symb of
        None \<Rightarrow> (st, w)
      | Some sig \<Rightarrow>
          (let w1 = (case getOpenOrders env symb w of
                       (None, w') \<Rightarrow> w'
                     | (Some openOrders, w') \<Rightarrow> cancelOrders env openOrders w')
           in case getPositions env w1 of
                (None, w2) \<Rightarrow> (st, w2)
              | (Some positions, w2) \<Rightarrow>
                  (let (placed, w3) =
                         (case find (\<lambda>p. pos_symbol p = symb) positions of
                            None \<Rightarrow> (True, w2)
                          | Some position \<Rightarrow>
                              (case addOrder env symb (if pos_side position = BUY then SELL else BUY)
                                      (Fin (pos_quantity position)) MARKET None w2 of
                                 (None, w') \<Rightarrow> (False, w')
                               | (Some order, w') \<Rightarrow> (True, w')))
                   in if \<not> placed then (st, w3)
                      else
                        (let st1 = (if rsn = ''Stop Loss Hit''
                                    then st\<lparr>lossCooldowns := (lossCooldowns st)(symb \<mapsto> dateNow env w3)\<rparr>
                                    else st);
                             st2 = st1\<lparr>activeSignals := (activeSignals st1)(symb := None)\<rparr>;
                             (st3, w4) = removePersistedTrailingStop env symb st2 w3
                         in (st3\<lparr>partialProfitTaken := (partialProfitTaken st3)(symb := None),
                                 positionOpenedAt := (positionOpenedAt st3)(symb := None),
                                 lastTrailingStopCheck := (lastTrailingStopCheck st3)(symb := None)\<rparr>,
                             w4)))))"



section \<open>Stages of the lifecycle functions\<close>









section \<open>What a proof may assume of the exchange\<close>



section \<open>An exchange for examples\<close>

text \<open>
  A world that is only a clock.  The exchange reports the positions \<open>ps\<close> and the open
  orders \<open>os\<close> of the symbol asked for, accepts every order when \<open>accepting\<close> and rejects
  every order otherwise; cancelling and writing the file succeed.
\<close>

definition steadyExchange :: "Position list \<Rightarrow> Order list \<Rightarrow> bool \<Rightarrow> int Env" where
  "steadyExchange ps os accepting =
     \<lparr>dateNow = (\<lambda>w. w),
      getPositions = (\<lambda>w. (Some ps, w)),
      getOpenOrders = (\<lambda>symb w. (Some (filter (\<lambda>ord. ord_symbol ord = symb) os), w)),
      addOrder = (\<lambda>symb sd quantity tp price w.
         (if accepting
          then Some \<lparr>ord_id = ''order'', ord_symbol = symb, ord_side = sd, ord_type = tp,
                      ord_status = OPEN\<rparr>
          else None, w)),
      cancelOrder = (\<lambda>orderId w. (True, w)),
      writeFileSync = (\<lambda>w. (True, w))\<rparr>"

text \<open>
  A long position in \<open>BTC-USD.P\<close> entered at 100 with the stop at 95, as the strategy
  tracks it and as the exchange reports it at a mark price.
\<close>

definition longSignal :: "rat option \<Rightarrow> Signal" where
  "longSignal tp =
     \<lparr>symbol = ''BTC-USD.P'', side = BUY, entryPrice = 100, stopLoss = 95, takeProfit = tp,
      confidence = 1, reason = ExistingPositionOnRestart\<rparr>"



text \<open>A window of 200 equal candles, and a strategy that holds it for \<open>BTC-USD.P\<close>.\<close>

definition flatHistory :: "PriceData list" where
  "flatHistory = replicate 200 \<lparr>high = 2, low = 1, close = 1, volume = 1, timestamp = 0\<rparr>"

definition flatStrategy :: Strategy where
  "flatStrategy = (newBreakoutStrategy Missing)\<lparr>priceHistory := [''BTC-USD.P'' \<mapsto> flatHistory]\<rparr>"


definition exampleConfig :: BreakoutConfig where
  "exampleConfig = \<lparr>lookbackPeriod = 20, positionSize = 1000, takeProfitPercent = None\<rparr>"


section \<open>Indicator library: when a result exists\<close>


lemma calculateSMA_None_iff: "calculateSMA xs p = None \<longleftrightarrow> length xs < p"
  by (simp add: calculateSMA_def Let_def)

lemma calculateEMA_None_iff: "calculateEMA xs p = None \<longleftrightarrow> length xs < p"
  by (auto simp: calculateEMA_def Let_def calculateSMA_def split: Option.bind_splits)

lemma calculateRSI_None_iff: "calculateRSI xs p = None \<longleftrightarrow> length xs < p + 1"
  by (simp add: calculateRSI_def Let_def)

lemma calculateBollingerBands_None_iff:
  "calculateBollingerBands dsqrt xs p sd = None \<longleftrightarrow> length xs < p"
  by (auto simp: calculateBollingerBands_def Let_def calculateSMA_None_iff split: Option.bind_splits)

lemma those_eq_None_iff: "those xs = None \<longleftrightarrow> None \<in> set xs"
  by (induction xs) (auto split: option.splits)

lemma those_length: "those xs = Some ys \<Longrightarrow> length ys = length xs"
  by (induction xs arbitrary: ys) (auto split: option.splits)

lemma calculateMACD_None_iff:
  assumes "f \<le> s"
  shows "calculateMACD xs f s g = None \<longleftrightarrow> length xs < s + g"
proof (cases "length xs < s + g")
  case True
  then show ?thesis by (simp add: calculateMACD_def)
next
  case False
  then have len: "s + g \<le> length xs" by simp
  have e1: "calculateEMA xs f \<noteq> None" and e2: "calculateEMA xs s \<noteq> None"
    using len assms by (simp_all add: calculateEMA_None_iff)
  have inner: "None \<notin> set (map (\<lambda>i. do {
            let subPrices = take i xs;
            fast \<leftarrow> calculateEMA subPrices f;
            slow \<leftarrow> calculateEMA subPrices s;
            Some (fast - slow)
          }) [s..<Suc (length xs)])"
    using assms by (auto simp: Let_def calculateEMA_None_iff split: Option.bind_splits)
  then obtain mv where mv: "those (map (\<lambda>i. do {
            let subPrices = take i xs;
            fast \<leftarrow> calculateEMA subPrices f;
            slow \<leftarrow> calculateEMA subPrices s;
            Some (fast - slow)
          }) [s..<Suc (length xs)]) = Some mv"
    using those_eq_None_iff by fastforce
  have "calculateMACD xs f s g \<noteq> None"
    using len e1 e2 mv
    by (auto simp: calculateMACD_def Let_def calculateEMA_None_iff split: Option.bind_splits)
  with False show ?thesis by simp
qed


lemma decimal_max_None_iff: "decimal_max xs = None \<longleftrightarrow> xs = []"
  by (cases xs) simp_all

lemma decimal_min_None_iff: "decimal_min xs = None \<longleftrightarrow> xs = []"
  by (cases xs) simp_all

lemma calculateStochastic_None_iff:
  assumes "0 < kp"
  shows "calculateStochastic xs kp dp = None \<longleftrightarrow> length xs < kp + dp"
proof (cases "length xs < kp + dp")
  case True
  then show ?thesis by (simp add: calculateStochastic_def)
next
  case False
  then have len: "kp + dp \<le> length xs" by simp
  let ?f = "\<lambda>i. do {
            let periodPrices = take kp (drop (i + 1 - kp) xs);
            highest \<leftarrow> decimal_max (map high periodPrices);
            lowest \<leftarrow> decimal_min (map low periodPrices);
            let currentClose = close (last periodPrices);
            let range = highest - lowest;
            Some (if range = 0 then 50 else (currentClose - lowest) / range * 100)
          }"
  have "None \<notin> set (map ?f [kp - 1..<length xs])"
    using assms
    by (auto simp: Let_def decimal_max_None_iff decimal_min_None_iff split: Option.bind_splits)
  then obtain kv where kv: "those (map ?f [kp - 1..<length xs]) = Some kv"
    using those_eq_None_iff by fastforce
  then have "length kv = length xs - (kp - 1)"
    using those_length by fastforce
  then have "kv \<noteq> []" using len assms by auto
  then have "calculateStochastic xs kp dp \<noteq> None"
    using len kv by (simp add: calculateStochastic_def Let_def)
  with False show ?thesis by simp
qed

lemma calculateAverageVolume_None_iff:
  "calculateAverageVolume xs p = None \<longleftrightarrow> length xs < p"
  by (simp add: calculateAverageVolume_def Let_def)

lemma detectEMAStack_total: "detectEMAStack xs \<noteq> None"
  by (auto simp: detectEMAStack_def calculateEMA_None_iff split: Option.bind_splits)

lemma detectPriceStructure_total:
  assumes "0 < lb"
  shows "detectPriceStructure xs lb \<noteq> None"
proof (cases "length xs < lb * 2")
  case True
  then show ?thesis by (simp add: detectPriceStructure_def)
next
  case False
  then have "take lb (slice_last (lb * 2) xs) \<noteq> []" "drop lb (slice_last (lb * 2) xs) \<noteq> []"
    using assms by (auto simp: slice_last_def)
  then show ?thesis
    using False
    by (auto simp: detectPriceStructure_def Let_def decimal_max_None_iff decimal_min_None_iff
        split: Option.bind_splits)
qed

lemma calculateMomentumScore_short:
  "length prices < 200 \<Longrightarrow>
     calculateMomentumScore dsqrt prices direction = Some \<lparr>score = 0, components = []\<rparr>"
  by (simp add: calculateMomentumScore_def)

lemma calculateMomentumScore_long:
  assumes "200 \<le> length prices"
  shows "\<exists>rsi m ema20 ema50 ema200 bollinger stochastic.
           calculateRSI prices 14 = Some rsi \<and>
           calculateMACD (map close prices) 12 26 9 = Some m \<and>
           calculateEMA (map close prices) 20 = Some ema20 \<and>
           calculateEMA (map close prices) 50 = Some ema50 \<and>
           calculateEMA (map close prices) 200 = Some ema200 \<and>
           calculateBollingerBands dsqrt (map close prices) 20 2 = Some bollinger \<and>
           calculateStochastic prices 14 3 = Some stochastic \<and>
           calculateMomentumScore dsqrt prices direction =
             (let currentPrice = last (map close prices);
                  rsiS = rsiScore direction rsi;
                  macdS = macdScore direction m;
                  emaS = emaScore direction currentPrice ema20 ema50 ema200;
                  bbS = bbScore direction
                     (dividedBy (currentPrice - lower bollinger) (upper bollinger - lower bollinger));
                  stochS = stochScore direction stochastic
              in Some \<lparr>score = rsiS + macdS + emaS + bbS + stochS,
                       components = [(''rsi'', rsiS), (''macd'', macdS), (''ema'', emaS),
                            (''bollinger'', bbS), (''stochastic'', stochS)]\<rparr>)"
proof -
  obtain rsi where 1: "calculateRSI prices 14 = Some rsi"
    using assms calculateRSI_None_iff [of prices 14] by fastforce
  obtain m where 2: "calculateMACD (map close prices) 12 26 9 = Some m"
    using assms calculateMACD_None_iff [of 12 26 "map close prices" 9] by fastforce
  obtain ema20 where 3: "calculateEMA (map close prices) 20 = Some ema20"
    using assms calculateEMA_None_iff [of "map close prices" 20] by fastforce
  obtain ema50 where 4: "calculateEMA (map close prices) 50 = Some ema50"
    using assms calculateEMA_None_iff [of "map close prices" 50] by fastforce
  obtain ema200 where 5: "calculateEMA (map close prices) 200 = Some ema200"
    using assms calculateEMA_None_iff [of "map close prices" 200] by fastforce
  obtain bollinger where 6: "calculateBollingerBands dsqrt (map close prices) 20 2 = Some bollinger"
    using assms calculateBollingerBands_None_iff [of dsqrt "map close prices" 20 2] by fastforce
  obtain stochastic where 7: "calculateStochastic prices 14 3 = Some stochastic"
    using assms calculateStochastic_None_iff [of 14 prices 3] by fastforce
  show ?thesis
    using assms 1 2 3 4 5 6 7 by (simp add: calculateMomentumScore_def Let_def)
qed

lemma rsiScore_bounds: "0 \<le> rsiScore dir x \<and> rsiScore dir x \<le> 0.20"
  by (simp add: rsiScore_def split: Direction.splits)

lemma macdScore_bounds: "0 \<le> macdScore dir x \<and> macdScore dir x \<le> 0.20"
  by (simp add: macdScore_def split: Direction.splits)

lemma emaScore_bounds: "0 \<le> emaScore dir p a b c \<and> emaScore dir p a b c \<le> 0.25"
  by (simp add: emaScore_def Let_def split: Direction.splits)

lemma bbScore_bounds: "0 \<le> bbScore dir x \<and> bbScore dir x \<le> 0.15"
  by (simp add: bbScore_def split: Direction.splits)

lemma stochScore_bounds: "0 \<le> stochScore dir x \<and> stochScore dir x \<le> 0.20"
  by (simp add: stochScore_def split: Direction.splits)

lemma rsiScore_zero_iff:
  "rsiScore dir x = 0 \<longleftrightarrow> (case dir of LONG \<Rightarrow> 70 < x | SHORT \<Rightarrow> x < 30)"
  by (cases dir) (simp_all add: rsiScore_def, linarith+)

lemma macdScore_zero_iff:
  "macdScore dir m = 0 \<longleftrightarrow>
     (case dir of LONG \<Rightarrow> macd m \<le> signal m \<and> histogram m \<le> 0
      | SHORT \<Rightarrow> signal m \<le> macd m \<and> 0 \<le> histogram m)"
  by (auto simp: macdScore_def split: Direction.splits)

lemma emaScore_zero_iff:
  "emaScore dir p a b c = 0 \<longleftrightarrow> (case dir of LONG \<Rightarrow> p \<le> a | SHORT \<Rightarrow> a \<le> p)"
  by (auto simp: emaScore_def Let_def split: Direction.splits)

lemma bbScore_zero_iff:
  "bbScore dir x = 0 \<longleftrightarrow>
     (case dir of LONG \<Rightarrow> \<not> lessThanOrEqualTo_dec x 0.7
      | SHORT \<Rightarrow> \<not> greaterThanOrEqualTo_dec x 0.3)"
  by (cases x) (auto simp: bbScore_def split: Direction.splits)

lemma stochScore_zero_iff:
  "stochScore dir s = 0 \<longleftrightarrow>
     (case dir of
        LONG \<Rightarrow> \<not> (stoch_d s < stoch_k s \<and> stoch_k s < 80) \<and> 30 \<le> stoch_k s
      | SHORT \<Rightarrow> \<not> (stoch_k s < stoch_d s \<and> 20 < stoch_k s) \<and> stoch_k s \<le> 70)"
  by (auto simp: stochScore_def split: Direction.splits)

section \<open>Momentum scorer: results\<close>

text \<open>
  C10: the scorer is total.  A window of fewer than 200 samples gets the score 0 and no
  components.  Each indicator the scorer calls fails exactly below its own need (RSI 15,
  MACD 35, the EMAs 20, 50 and 200, Bollinger 20, Stochastic 17 samples), so none of them
  (and hence not the scorer) fails on a window of at least 200 samples.
\<close>

theorem calculateMomentumScore_total:
  "(length prices < 200 \<longrightarrow>
      calculateMomentumScore dsqrt prices direction = Some \<lparr>score = 0, components = []\<rparr>) \<and>
   (calculateRSI prices 14 = None \<longleftrightarrow> length prices < 15) \<and>
   (calculateMACD (map close prices) 12 26 9 = None \<longleftrightarrow> length prices < 35) \<and>
   (calculateEMA (map close prices) 20 = None \<longleftrightarrow> length prices < 20) \<and>
   (calculateEMA (map close prices) 50 = None \<longleftrightarrow> length prices < 50) \<and>
   (calculateEMA (map close prices) 200 = None \<longleftrightarrow> length prices < 200) \<and>
   (calculateBollingerBands dsqrt (map close prices) 20 2 = None \<longleftrightarrow> length prices < 20) \<and>
   (calculateStochastic prices 14 3 = None \<longleftrightarrow> length prices < 17) \<and>
   (200 \<le> length prices \<longrightarrow>
      calculateRSI prices 14 \<noteq> None \<and>
      calculateMACD (map close prices) 12 26 9 \<noteq> None \<and>
      calculateEMA (map close prices) 20 \<noteq> None \<and>
      calculateEMA (map close prices) 50 \<noteq> None \<and>
      calculateEMA (map close prices) 200 \<noteq> None \<and>
      calculateBollingerBands dsqrt (map close prices) 20 2 \<noteq> None \<and>
      calculateStochastic prices 14 3 \<noteq> None \<and>
      calculateMomentumScore dsqrt prices direction \<noteq> None)"
proof -
  have short: "length prices < 200 \<longrightarrow>
      calculateMomentumScore dsqrt prices direction = Some \<lparr>score = 0, components = []\<rparr>"
    by (simp add: calculateMomentumScore_short)
  have rsi: "calculateRSI prices 14 = None \<longleftrightarrow> length prices < 15"
    by (simp add: calculateRSI_None_iff)
  have macd: "calculateMACD (map close prices) 12 26 9 = None \<longleftrightarrow> length prices < 35"
    using calculateMACD_None_iff [of 12 26 "map close prices" 9] by simp
  have ema: "\<And>p. calculateEMA (map close prices) p = None \<longleftrightarrow> length prices < p"
    by (simp add: calculateEMA_None_iff)
  have bb: "calculateBollingerBands dsqrt (map close prices) 20 2 = None \<longleftrightarrow> length prices < 20"
    by (simp add: calculateBollingerBands_None_iff)
  have st: "calculateStochastic prices 14 3 = None \<longleftrightarrow> length prices < 17"
    using calculateStochastic_None_iff [of 14 prices 3] by simp
  have long: "200 \<le> length prices \<longrightarrow> calculateMomentumScore dsqrt prices direction \<noteq> None"
    using calculateMomentumScore_long [of prices dsqrt direction] by (auto simp: Let_def)
  show ?thesis
    using short rsi macd ema [of 20] ema [of 50] ema [of 200] bb st long by simp
qed

theorem calculateMomentumScore_total_witness:
  "calculateMomentumScore (\<lambda>v. 0) [] LONG = Some \<lparr>score = 0, components = []\<rparr> \<and>
   calculateMomentumScore (\<lambda>v. 0)
     (replicate 200 \<lparr>high = 2, low = 1, close = 1, volume = 1, timestamp = 0\<rparr>) SHORT \<noteq> None"
  using calculateMomentumScore_total [of "[]" "\<lambda>v. 0" LONG]
    calculateMomentumScore_total [of
      "replicate 200 \<lparr>high = 2, low = 1, close = 1, volume = 1, timestamp = 0\<rparr>" "\<lambda>v. 0" SHORT]
  by simp

text \<open>
  C8: on a window of at least 200 samples and for either direction, the score is the sum
  of the five sub-scores, each between 0 and its weight (RSI 0.20, MACD 0.20, EMA 0.25,
  Bollinger 0.15, Stochastic 0.20, which sum to 1), each weight is reached by some
  indicator value, each sub-score is 0 exactly outside its favorable zone, and the score
  lies between 0 and 1.
\<close>

theorem calculateMomentumScore_weighted_sum:
  assumes "200 \<le> length prices"
  shows "\<exists>rsi m ema20 ema50 ema200 bollinger stochastic rsiS macdS emaS bbS stochS.
           calculateRSI prices 14 = Some rsi \<and>
           calculateMACD (map close prices) 12 26 9 = Some m \<and>
           calculateEMA (map close prices) 20 = Some ema20 \<and>
           calculateEMA (map close prices) 50 = Some ema50 \<and>
           calculateEMA (map close prices) 200 = Some ema200 \<and>
           calculateBollingerBands dsqrt (map close prices) 20 2 = Some bollinger \<and>
           calculateStochastic prices 14 3 = Some stochastic \<and>
           rsiS = rsiScore direction rsi \<and>
           macdS = macdScore direction m \<and>
           emaS = emaScore direction (last (map close prices)) ema20 ema50 ema200 \<and>
           bbS = bbScore direction
                   (dividedBy (last (map close prices) - lower bollinger)
                      (upper bollinger - lower bollinger)) \<and>
           stochS = stochScore direction stochastic \<and>
           calculateMomentumScore dsqrt prices direction =
             Some \<lparr>score = rsiS + macdS + emaS + bbS + stochS,
                   components = [(''rsi'', rsiS), (''macd'', macdS), (''ema'', emaS),
                                 (''bollinger'', bbS), (''stochastic'', stochS)]\<rparr> \<and>
           0 \<le> rsiS \<and> rsiS \<le> 0.20 \<and> 0 \<le> macdS \<and> macdS \<le> 0.20 \<and>
           0 \<le> emaS \<and> emaS \<le> 0.25 \<and> 0 \<le> bbS \<and> bbS \<le> 0.15 \<and>
           0 \<le> stochS \<and> stochS \<le> 0.20 \<and>
           (0.20 + 0.20 + 0.25 + 0.15 + 0.20 = (1 :: rat)) \<and>
           (\<exists>x. rsiScore direction x = 0.20) \<and> (\<exists>x. macdScore direction x = 0.20) \<and>
           (\<exists>p a b c. emaScore direction p a b c = 0.25) \<and> (\<exists>x. bbScore direction x = 0.15) \<and>
           (\<exists>x. stochScore direction x = 0.20) \<and>
           (rsiS = 0 \<longleftrightarrow> (case direction of LONG \<Rightarrow> 70 < rsi | SHORT \<Rightarrow> rsi < 30)) \<and>
           (macdS = 0 \<longleftrightarrow>
              (case direction of LONG \<Rightarrow> macd m \<le> signal m \<and> histogram m \<le> 0
               | SHORT \<Rightarrow> signal m \<le> macd m \<and> 0 \<le> histogram m)) \<and>
           (emaS = 0 \<longleftrightarrow>
              (case direction of LONG \<Rightarrow> last (map close prices) \<le> ema20
               | SHORT \<Rightarrow> ema20 \<le> last (map close prices))) \<and>
           (bbS = 0 \<longleftrightarrow>
              (case direction of
                 LONG \<Rightarrow> \<not> lessThanOrEqualTo_dec
                   (dividedBy (last (map close prices) - lower bollinger)
                      (upper bollinger - lower bollinger)) 0.7
               | SHORT \<Rightarrow> \<not> greaterThanOrEqualTo_dec
                   (dividedBy (last (map close prices) - lower bollinger)
                      (upper bollinger - lower bollinger)) 0.3)) \<and>
           (stochS = 0 \<longleftrightarrow>
              (case direction of
                 LONG \<Rightarrow> \<not> (stoch_d stochastic < stoch_k stochastic \<and> stoch_k stochastic < 80)
                          \<and> 30 \<le> stoch_k stochastic
               | SHORT \<Rightarrow> \<not> (stoch_k stochastic < stoch_d stochastic \<and> 20 < stoch_k stochastic)
                          \<and> stoch_k stochastic \<le> 70)) \<and>
           0 \<le> rsiS + macdS + emaS + bbS + stochS \<and>
           rsiS + macdS + emaS + bbS + stochS \<le> 1"
proof -
  obtain rsi m ema20 ema50 ema200 bollinger stochastic where ind:
    "calculateRSI prices 14 = Some rsi"
    "calculateMACD (map close prices) 12 26 9 = Some m"
    "calculateEMA (map close prices) 20 = Some ema20"
    "calculateEMA (map close prices) 50 = Some ema50"
    "calculateEMA (map close prices) 200 = Some ema200"
    "calculateBollingerBands dsqrt (map close prices) 20 2 = Some bollinger"
    "calculateStochastic prices 14 3 = Some stochastic"
    and res: "calculateMomentumScore dsqrt prices direction =
             (let currentPrice = last (map close prices);
                  rsiS = rsiScore direction rsi;
                  macdS = macdScore direction m;
                  emaS = emaScore direction currentPrice ema20 ema50 ema200;
                  bbS = bbScore direction
                     (dividedBy (currentPrice - lower bollinger) (upper bollinger - lower bollinger));
                  stochS = stochScore direction stochastic
              in Some \<lparr>score = rsiS + macdS + emaS + bbS + stochS,
                       components = [(''rsi'', rsiS), (''macd'', macdS), (''ema'', emaS),
                            (''bollinger'', bbS), (''stochastic'', stochS)]\<rparr>)"
    using calculateMomentumScore_long [OF assms, of dsqrt direction] by blast
  define rsiS where "rsiS = rsiScore direction rsi"
  define macdS where "macdS = macdScore direction m"
  define emaS where "emaS = emaScore direction (last (map close prices)) ema20 ema50 ema200"
  define pp where "pp = dividedBy (last (map close prices) - lower bollinger)
                      (upper bollinger - lower bollinger)"
  define bbS where "bbS = bbScore direction pp"
  define stochS where "stochS = stochScore direction stochastic"
  have res': "calculateMomentumScore dsqrt prices direction =
             Some \<lparr>score = rsiS + macdS + emaS + bbS + stochS,
                   components = [(''rsi'', rsiS), (''macd'', macdS), (''ema'', emaS),
                                 (''bollinger'', bbS), (''stochastic'', stochS)]\<rparr>"
    using res by (simp add: Let_def rsiS_def macdS_def emaS_def bbS_def pp_def stochS_def)
  have b1: "0 \<le> rsiS" "rsiS \<le> 0.20" unfolding rsiS_def using rsiScore_bounds by blast+
  have b2: "0 \<le> macdS" "macdS \<le> 0.20" unfolding macdS_def using macdScore_bounds by blast+
  have b3: "0 \<le> emaS" "emaS \<le> 0.25" unfolding emaS_def using emaScore_bounds by blast+
  have b4: "0 \<le> bbS" "bbS \<le> 0.15" unfolding bbS_def using bbScore_bounds by blast+
  have b5: "0 \<le> stochS" "stochS \<le> 0.20" unfolding stochS_def using stochScore_bounds by blast+
  have w: "0.20 + 0.20 + 0.25 + 0.15 + 0.20 = (1 :: rat)" by simp
  have m1: "\<exists>x. rsiScore direction x = 0.20"
    by (rule exI [of _ 50]) (simp add: rsiScore_def split: Direction.splits)
  have m2: "\<exists>x. macdScore direction x = 0.20"
  proof (cases direction)
    case LONG
    then show ?thesis
      by (intro exI [of _ "\<lparr>macd = 1, signal = 0, histogram = 1\<rparr>"]) (simp add: macdScore_def)
  next
    case SHORT
    then show ?thesis
      by (intro exI [of _ "\<lparr>macd = 0, signal = 1, histogram = - 1\<rparr>"]) (simp add: macdScore_def)
  qed
  have m3: "\<exists>p a b c. emaScore direction p a b c = 0.25"
  proof (cases direction)
    case LONG
    have "emaScore LONG 4 3 2 1 = 0.25" by (simp add: emaScore_def)
    with LONG show ?thesis by blast
  next
    case SHORT
    have "emaScore SHORT 1 2 3 4 = 0.25" by (simp add: emaScore_def)
    with SHORT show ?thesis by blast
  qed
  have m4: "\<exists>x. bbScore direction x = 0.15"
  proof (cases direction)
    case LONG
    have "bbScore LONG (Fin 0) = 0.15" by (simp add: bbScore_def)
    with LONG show ?thesis by blast
  next
    case SHORT
    have "bbScore SHORT (Fin 1) = 0.15" by (simp add: bbScore_def)
    with SHORT show ?thesis by blast
  qed
  have m5: "\<exists>x. stochScore direction x = 0.20"
  proof (cases direction)
    case LONG
    have "stochScore LONG \<lparr>stoch_k = 20, stoch_d = 10\<rparr> = 0.20" by (simp add: stochScore_def)
    with LONG show ?thesis by blast
  next
    case SHORT
    have "stochScore SHORT \<lparr>stoch_k = 80, stoch_d = 90\<rparr> = 0.20" by (simp add: stochScore_def)
    with SHORT show ?thesis by blast
  qed
  have z1: "rsiS = 0 \<longleftrightarrow> (case direction of LONG \<Rightarrow> 70 < rsi | SHORT \<Rightarrow> rsi < 30)"
    unfolding rsiS_def by (rule rsiScore_zero_iff)
  have z2: "macdS = 0 \<longleftrightarrow>
              (case direction of LONG \<Rightarrow> macd m \<le> signal m \<and> histogram m \<le> 0
               | SHORT \<Rightarrow> signal m \<le> macd m \<and> 0 \<le> histogram m)"
    unfolding macdS_def by (rule macdScore_zero_iff)
  have z3: "emaS = 0 \<longleftrightarrow>
              (case direction of LONG \<Rightarrow> last (map close prices) \<le> ema20
               | SHORT \<Rightarrow> ema20 \<le> last (map close prices))"
    unfolding emaS_def by (rule emaScore_zero_iff)
  have z4: "bbS = 0 \<longleftrightarrow>
              (case direction of LONG \<Rightarrow> \<not> lessThanOrEqualTo_dec pp 0.7
               | SHORT \<Rightarrow> \<not> greaterThanOrEqualTo_dec pp 0.3)"
    unfolding bbS_def by (rule bbScore_zero_iff)
  have z5: "stochS = 0 \<longleftrightarrow>
              (case direction of
                 LONG \<Rightarrow> \<not> (stoch_d stochastic < stoch_k stochastic \<and> stoch_k stochastic < 80)
                          \<and> 30 \<le> stoch_k stochastic
               | SHORT \<Rightarrow> \<not> (stoch_k stochastic < stoch_d stochastic \<and> 20 < stoch_k stochastic)
                          \<and> stoch_k stochastic \<le> 70)"
    unfolding stochS_def by (rule stochScore_zero_iff)
  have lo: "0 \<le> rsiS + macdS + emaS + bbS + stochS"
    using b1 b2 b3 b4 b5 by linarith
  have "rsiS + macdS + emaS + bbS + stochS \<le> 0.20 + 0.20 + 0.25 + 0.15 + 0.20"
    using b1 b2 b3 b4 b5 by linarith
  then have hi: "rsiS + macdS + emaS + bbS + stochS \<le> 1" by simp
  show ?thesis
    apply (rule exI [of _ rsi], rule exI [of _ m], rule exI [of _ ema20], rule exI [of _ ema50])
    apply (rule exI [of _ ema200], rule exI [of _ bollinger], rule exI [of _ stochastic])
    apply (rule exI [of _ rsiS], rule exI [of _ macdS], rule exI [of _ emaS])
    apply (rule exI [of _ bbS], rule exI [of _ stochS])
    using ind res' b1 b2 b3 b4 b5 w m1 m2 m3 m4 m5 z1 z2 z3 z4 z5 lo hi
    unfolding rsiS_def [symmetric] macdS_def [symmetric] emaS_def [symmetric]
      bbS_def [symmetric] stochS_def [symmetric] pp_def [symmetric]
    by (intro conjI) (assumption | rule refl)+
qed

theorem calculateMomentumScore_weighted_sum_witness:
  "200 \<le> length (replicate 200 \<lparr>high = 2, low = 1, close = 1, volume = 1, timestamp = 0\<rparr>) \<and>
   (\<exists>ms. calculateMomentumScore (\<lambda>v. 0)
       (replicate 200 \<lparr>high = 2, low = 1, close = 1, volume = 1, timestamp = 0\<rparr>) LONG = Some ms \<and>
      length (components ms) = 5 \<and> score ms = sum_list (map snd (components ms)) \<and>
      0 \<le> score ms \<and> score ms \<le> 1)"
proof -
  have h: "200 \<le> length (replicate 200 \<lparr>high = 2, low = 1, close = 1, volume = 1, timestamp = 0\<rparr>)"
    by simp
  from calculateMomentumScore_weighted_sum [OF h, of "\<lambda>v. 0" LONG] h
  show ?thesis
    by (elim exE conjE) simp
qed

section \<open>Position lifecycle: what each stage leaves\<close>
















lemma closePosition_released:
  "activeSignals st symb = None \<Longrightarrow> closePosition env symb rsn st w = (st, w)"
  by (simp add: closePosition_def)



















section \<open>Trailing stops: results\<close>






section \<open>Closing a position: results\<close>




section \<open>Opening and recovering a position: results\<close>

text \<open>
  C5: when \<open>executeSignal\<close> reaches the entry order (no active signal, no blocking loss
  cooldown, no position of the symbol on the exchange, a quantity that does not round to
  nothing) and the order placement throws, the active-signal entry made before the
  attempt is gone again (the map is the one from before), the failed-order cooldown of
  the symbol starts at that moment, and the loss cooldowns, the trailing stops and the
  trailing-stop file are untouched.
\<close>

theorem executeSignal_order_failure:
  assumes free: "activeSignals st (symbol sig) = None"
      and cool: "\<not> cooldownBlocks (lossCooldowns st (symbol sig)) (dateNow env w) LOSS_COOLDOWN_MS"
      and snap: "getPositions env w = (Some ps, w1)"
      and none: "find (\<lambda>p. pos_symbol p = symbol sig) ps = None"
      and qty: "(case customQuantity of
                    Some q \<Rightarrow> Some (Fin q)
                  | None \<Rightarrow> roundToSizeIncrement (dividedBy (positionSize cfg) (entryPrice sig))
                              (symbol sig)) = Some quantity"
      and fail: "addOrder env (symbol sig) (side sig) quantity MARKET None w1 = (None, w2)"
  shows "executeSignal env cfg sig customQuantity st w =
           (st\<lparr>positionOpenedAt := (positionOpenedAt st)(symbol sig := None),
               failedSignalCooldowns :=
                 (failedSignalCooldowns st)(symbol sig \<mapsto> dateNow env w2)\<rparr>, w2) \<and>
         activeSignals (fst (executeSignal env cfg sig customQuantity st w)) = activeSignals st \<and>
         failedSignalCooldowns (fst (executeSignal env cfg sig customQuantity st w)) (symbol sig)
           = Some (dateNow env w2) \<and>
         lossCooldowns (fst (executeSignal env cfg sig customQuantity st w)) = lossCooldowns st \<and>
         trailingStops (fst (executeSignal env cfg sig customQuantity st w)) = trailingStops st \<and>
         trailingStopsFile (fst (executeSignal env cfg sig customQuantity st w))
           = trailingStopsFile st"
proof -
  have idem: "((activeSignals st)(symbol sig \<mapsto> sig))(symbol sig := None) = activeSignals st"
    using free by (simp add: fun_upd_idem)
  have "executeSignal env cfg sig customQuantity st w =
           (st\<lparr>positionOpenedAt := (positionOpenedAt st)(symbol sig := None),
               failedSignalCooldowns :=
                 (failedSignalCooldowns st)(symbol sig \<mapsto> dateNow env w2)\<rparr>, w2)"
    using free cool snap none qty fail idem
    by (simp add: executeSignal_def Let_def)
  then show ?thesis by simp
qed

theorem executeSignal_order_failure_witness:
  "executeSignal (steadyExchange [] [] False) exampleConfig (longSignal (Some 101.3)) None flatStrategy 7000 =
     (flatStrategy\<lparr>positionOpenedAt := (positionOpenedAt flatStrategy)(''BTC-USD.P'' := None),
        failedSignalCooldowns := (failedSignalCooldowns flatStrategy)(''BTC-USD.P'' \<mapsto> 7000)\<rparr>,
      7000) \<and>
   activeSignals (fst (executeSignal (steadyExchange [] [] False) exampleConfig (longSignal (Some 101.3)) None
        flatStrategy 7000)) ''BTC-USD.P'' = None \<and>
   lossCooldowns (fst (executeSignal (steadyExchange [] [] False) exampleConfig (longSignal (Some 101.3)) None
        flatStrategy 7000)) ''BTC-USD.P'' = None \<and>
   trailingStops (fst (executeSignal (steadyExchange [] [] False) exampleConfig (longSignal (Some 101.3)) None
        flatStrategy 7000)) = [] \<and>
   trailingStopsFile (fst (executeSignal (steadyExchange [] [] False) exampleConfig (longSignal (Some 101.3)) None
        flatStrategy 7000)) = Missing"
proof -
  let ?env = "steadyExchange [] [] False"
  let ?cfg = exampleConfig
  let ?sig = "longSignal (Some 101.3)"
  have sy: "symbol ?sig = ''BTC-USD.P''" by (simp add: longSignal_def)
  have free: "activeSignals flatStrategy (symbol ?sig) = None"
    by (simp add: flatStrategy_def newBreakoutStrategy_def loadTrailingStops_def)
  have cool: "\<not> cooldownBlocks (lossCooldowns flatStrategy (symbol ?sig)) (dateNow ?env 7000)
                  LOSS_COOLDOWN_MS"
    by (simp add: flatStrategy_def newBreakoutStrategy_def loadTrailingStops_def cooldownBlocks_def)
  have snap: "getPositions ?env 7000 = (Some [], 7000)" by (simp add: steadyExchange_def)
  have none: "find (\<lambda>p. pos_symbol p = symbol ?sig) [] = None" by simp
  have qty: "(case None of
                    Some q \<Rightarrow> Some (Fin q)
                  | None \<Rightarrow> roundToSizeIncrement (dividedBy (positionSize ?cfg) (entryPrice ?sig))
                              (symbol ?sig)) = Some (Fin 10)"
    by (simp add: roundToSizeIncrement_def dividedBy_def sizeIncrement_def longSignal_def exampleConfig_def)
  have fail: "addOrder ?env (symbol ?sig) (side ?sig) (Fin 10) MARKET None 7000 = (None, 7000)"
    by (simp add: steadyExchange_def)
  have init: "trailingStops flatStrategy = []" "trailingStopsFile flatStrategy = Missing"
    "lossCooldowns flatStrategy ''BTC-USD.P'' = None"
    by (simp_all add: flatStrategy_def newBreakoutStrategy_def loadTrailingStops_def)
  have now: "dateNow ?env 7000 = 7000" by (simp add: steadyExchange_def)
  show ?thesis
    using executeSignal_order_failure [OF free cool snap none qty fail] free init
    by (simp add: sy now)
qed



section \<open>Signal generation: results\<close>

text \<open>
  C6 (as the code has it): for a symbol that has an active signal, or a loss cooldown
  that still blocks, or a failed-order cooldown that still blocks, \<open>generateSignal\<close>
  returns no signal whatever the price window holds.  The strategy is left as it was,
  except that a loss-cooldown entry of the symbol that has expired is deleted on the way
  to the failed-order check.
\<close>

theorem generateSignal_refuses_blocked:
  assumes "activeSignals st symb \<noteq> None \<or>
           cooldownBlocks (lossCooldowns st symb) (dateNow env w) LOSS_COOLDOWN_MS \<or>
           cooldownBlocks (failedSignalCooldowns st symb) (dateNow env w) FAILED_SIGNAL_COOLDOWN_MS"
  shows "fst (generateSignal env dsqrt symb st w) = None \<and>
         (snd (generateSignal env dsqrt symb st w) = st \<or>
          cooldownExpired (lossCooldowns st symb) (dateNow env w) LOSS_COOLDOWN_MS \<and>
          snd (generateSignal env dsqrt symb st w) =
            st\<lparr>lossCooldowns := (lossCooldowns st)(symb := None)\<rparr>) \<and>
         (activeSignals st symb \<noteq> None \<or>
          cooldownBlocks (lossCooldowns st symb) (dateNow env w) LOSS_COOLDOWN_MS \<or>
          \<not> cooldownExpired (lossCooldowns st symb) (dateNow env w) LOSS_COOLDOWN_MS
          \<longrightarrow> snd (generateSignal env dsqrt symb st w) = st)"
  using assms
  by (auto simp: generateSignal_def Let_def split: option.splits)

theorem generateSignal_refuses_blocked_witness:
  "cooldownBlocks (lossCooldowns (flatStrategy\<lparr>lossCooldowns := [''BTC-USD.P'' \<mapsto> 1000]\<rparr>)
      ''BTC-USD.P'') (dateNow (steadyExchange [] [] True) 2000) LOSS_COOLDOWN_MS \<and>
   generateSignal (steadyExchange [] [] True) (\<lambda>v. 0) ''BTC-USD.P''
       (flatStrategy\<lparr>lossCooldowns := [''BTC-USD.P'' \<mapsto> 1000]\<rparr>) 2000 =
     (None, flatStrategy\<lparr>lossCooldowns := [''BTC-USD.P'' \<mapsto> 1000]\<rparr>)"
proof -
  let ?st = "flatStrategy\<lparr>lossCooldowns := [''BTC-USD.P'' \<mapsto> 1000]\<rparr>"
  have h: "cooldownBlocks (lossCooldowns ?st ''BTC-USD.P'')
             (dateNow (steadyExchange [] [] True) 2000) LOSS_COOLDOWN_MS"
    by (simp add: cooldownBlocks_def steadyExchange_def LOSS_COOLDOWN_MS_def)
  have "fst (generateSignal (steadyExchange [] [] True) (\<lambda>v. 0) ''BTC-USD.P'' ?st 2000) = None \<and>
        snd (generateSignal (steadyExchange [] [] True) (\<lambda>v. 0) ''BTC-USD.P'' ?st 2000) = ?st"
    using generateSignal_refuses_blocked
      [of ?st "''BTC-USD.P''" "steadyExchange [] [] True" 2000 "\<lambda>v. 0"] h
    by blast
  then show ?thesis using h by (simp add: prod_eq_iff)
qed

text \<open>
  C6 as stated fails in its "no state written": with a loss cooldown that expired long
  ago and a failed-order cooldown that still blocks, the generator returns no signal and
  has deleted the loss-cooldown entry.
\<close>

theorem generateSignal_state_written_counterexample:
  "cooldownBlocks
     (failedSignalCooldowns
        (flatStrategy\<lparr>lossCooldowns := [''BTC-USD.P'' \<mapsto> 1000],
                      failedSignalCooldowns := [''BTC-USD.P'' \<mapsto> 1999000]\<rparr>) ''BTC-USD.P'')
     (dateNow (steadyExchange [] [] True) 2000000) FAILED_SIGNAL_COOLDOWN_MS \<and>
   fst (generateSignal (steadyExchange [] [] True) (\<lambda>v. 0) ''BTC-USD.P''
          (flatStrategy\<lparr>lossCooldowns := [''BTC-USD.P'' \<mapsto> 1000],
                        failedSignalCooldowns := [''BTC-USD.P'' \<mapsto> 1999000]\<rparr>) 2000000) = None \<and>
   lossCooldowns
     (flatStrategy\<lparr>lossCooldowns := [''BTC-USD.P'' \<mapsto> 1000],
                   failedSignalCooldowns := [''BTC-USD.P'' \<mapsto> 1999000]\<rparr>) ''BTC-USD.P''
     = Some 1000 \<and>
   lossCooldowns
     (snd (generateSignal (steadyExchange [] [] True) (\<lambda>v. 0) ''BTC-USD.P''
          (flatStrategy\<lparr>lossCooldowns := [''BTC-USD.P'' \<mapsto> 1000],
                        failedSignalCooldowns := [''BTC-USD.P'' \<mapsto> 1999000]\<rparr>) 2000000))
     ''BTC-USD.P'' = None"
  by (simp add: generateSignal_def cooldownBlocks_def cooldownExpired_def steadyExchange_def
      LOSS_COOLDOWN_MS_def FAILED_SIGNAL_COOLDOWN_MS_def flatStrategy_def flatHistory_def
      newBreakoutStrategy_def loadTrailingStops_def Let_def)

section \<open>Order status: results\<close>

text \<open>
  C9 (as the code has it): a status text that, lower-cased, is none of the recognized
  ones is mapped to \<open>FILLED\<close>, the terminal status that \<open>getOpenOrders\<close> filters out;
  the enum has no unknown status.
\<close>

theorem mapOrderStatus_unrecognized_is_FILLED:
  "normalizedStatus status \<notin> set recognizedStatuses \<Longrightarrow>
     mapOrderStatus status = FILLED \<and> \<not> isOpenStatus (mapOrderStatus status)"
  by (simp add: mapOrderStatus_def recognizedStatuses_def isOpenStatus_def Let_def)

theorem mapOrderStatus_unrecognized_is_FILLED_witness:
  "normalizedStatus (Some ''Expired'') \<notin> set recognizedStatuses \<and>
   mapOrderStatus (Some ''Expired'') = FILLED \<and> \<not> isOpenStatus (mapOrderStatus (Some ''Expired''))"
proof -
  have h: "normalizedStatus (Some ''Expired'') \<notin> set recognizedStatuses"
    by (simp add: normalizedStatus_def toLowerCase_def toLowerCase_char_def recognizedStatuses_def)
  show ?thesis
    using h mapOrderStatus_unrecognized_is_FILLED [OF h] by blast
qed

text \<open>
  C9 as stated fails: the unrecognized status \<open>expired\<close> is mapped to the filled
  status, not to a status of its own.
\<close>

theorem mapOrderStatus_unknown_counterexample:
  "normalizedStatus (Some ''expired'') \<notin> set recognizedStatuses \<and>
   mapOrderStatus (Some ''expired'') = FILLED"
  by (simp add: mapOrderStatus_def normalizedStatus_def toLowerCase_def toLowerCase_char_def
      recognizedStatuses_def Let_def)

end
